theory Spec2Isabelle
  imports Complex_Main
begin

section \<open>The scoring engine of the St. Galler management analysis\<close>

text \<open>
  The development embeds the class \<open>StGallerFrameworkAnalyzer\<close> of
  \<open>st_galler_app.py\<close>: the four aggregators, the benchmark comparison, the
  development-profile classification and the full analysis.

  Numbers. The ratings are Python numbers and numpy computes on binary64 floats. They are
  modelled as \<open>real\<close>: sums, quotients and the square root are exact, rounding is not
  modelled, and there is no NaN. The model and the code agree wherever every intermediate
  result is a binary64 number, as for the integer ratings 0 to 7 that the sliders
  supply when all ratings of a group are equal; they differ by a rounding error elsewhere
  (the code has \<open>0.9 - 0.7 = 0.20000000000000007\<close>, and the mean of three ratings 6.9 is
  6.900000000000001). A statement that gives a computed number is therefore made for
  integer ratings, or names the operation, or gives the number with a tolerance.

  Strings. A Python string is modelled as \<open>string\<close>, holding its UTF-8 encoding. The
  three non-ASCII letters of the source are written as their two bytes.
\<close>

abbreviation ae :: string where "ae \<equiv> [CHR 0xC3, CHR 0xA4]"
abbreviation oe :: string where "oe \<equiv> [CHR 0xC3, CHR 0xB6]"
abbreviation ue :: string where "ue \<equiv> [CHR 0xC3, CHR 0xBC]"

subsection \<open>Python and numpy primitives\<close>

datatype error = ValueError | KeyError

text \<open>
  \<open>antworten\<close> is only ever read with \<open>antworten.get(key, 0)\<close>, so it is a map. The
  \<open>scores\<close> dictionaries are iterated, so they keep their insertion order: an association
  list with distinct keys.
\<close>

type_synonym 'v pydict = "(string \<times> 'v) list"

definition dict_get :: "(string \<rightharpoonup> 'v) \<Rightarrow> string \<Rightarrow> 'v \<Rightarrow> 'v" where
  \<comment> \<open>\<open>d.get(k, dflt)\<close>\<close>
  "dict_get d k dflt = (case d k of None \<Rightarrow> dflt | Some v \<Rightarrow> v)"

fun dict_setitem :: "'v pydict \<Rightarrow> string \<Rightarrow> 'v \<Rightarrow> 'v pydict" where
  \<comment> \<open>\<open>d[k] = v\<close>: a new key goes to the end, an old key keeps its place\<close>
  "dict_setitem [] k v = [(k, v)]"
| "dict_setitem ((k', v') # d) k v =
     (if k' = k then (k, v) # d else (k', v') # dict_setitem d k v)"

definition dict_getitem :: "'v pydict \<Rightarrow> string \<Rightarrow> error + 'v" where
  \<comment> \<open>\<open>d[k]\<close> raises KeyError for a missing key\<close>
  "dict_getitem d k = (case map_of d k of None \<Rightarrow> Inl KeyError | Some v \<Rightarrow> Inr v)"

definition dict_values :: "'v pydict \<Rightarrow> 'v list" where
  "dict_values d = map snd d"

definition bind_result :: "error + 'a \<Rightarrow> ('a \<Rightarrow> error + 'b) \<Rightarrow> error + 'b" where
  \<comment> \<open>an exception raised by a call leaves the caller at once\<close>
  "bind_result r f = (case r of Inl e \<Rightarrow> Inl e | Inr x \<Rightarrow> f x)"

fun py_max_key :: "('a \<Rightarrow> real) \<Rightarrow> 'a list \<Rightarrow> error + 'a" where
  \<comment> \<open>\<open>max(xs, key=f)\<close>: ValueError on an empty sequence; a later item replaces the
      current one only when its key is strictly greater\<close>
  "py_max_key f [] = Inl ValueError"
| "py_max_key f (x # xs) = Inr (foldl (\<lambda>best y. if f y > f best then y else best) x xs)"

fun py_min_key :: "('a \<Rightarrow> real) \<Rightarrow> 'a list \<Rightarrow> error + 'a" where
  \<comment> \<open>\<open>min(xs, key=f)\<close>: a later item replaces the current one only when strictly smaller\<close>
  "py_min_key f [] = Inl ValueError"
| "py_min_key f (x # xs) = Inr (foldl (\<lambda>best y. if f y < f best then y else best) x xs)"

text \<open>
  \<open>max(scores, key=scores.get)\<close> iterates the keys of \<open>scores\<close> in insertion order and
  compares them by \<open>scores.get(k)\<close>, which for a key of the dictionary is the value of its
  entry: the entries are compared by their value and the key of the chosen one is returned.
\<close>

definition max_by_get :: "real pydict \<Rightarrow> error + string" where
  "max_by_get scores = bind_result (py_max_key snd scores) (\<lambda>item. Inr (fst item))"

definition min_by_get :: "real pydict \<Rightarrow> error + string" where
  "min_by_get scores = bind_result (py_min_key snd scores) (\<lambda>item. Inr (fst item))"

text \<open>
  \<open>np.mean\<close> and \<open>np.std\<close> (population standard deviation, \<open>ddof = 0\<close>). The source calls
  them on lists of three or four numbers only; on an empty list numpy returns NaN, which
  the model does not have (there the quotient below is 0).
\<close>

definition np_mean :: "real list \<Rightarrow> real" where
  "np_mean xs = sum_list xs / real (length xs)"

definition np_std :: "real list \<Rightarrow> real" where
  "np_std xs = sqrt (np_mean (map (\<lambda>x. (x - np_mean xs)\<^sup>2) xs))"

subsection \<open>Reference data\<close>

text \<open>
  A benchmark entry is a dictionary with the keys \<open>optimal\<close>, \<open>studie\<close> and \<open>befund\<close>. The
  analyzer object holds the table \<open>empirische_benchmarks\<close>; the table
  \<open>theoretische_grundlagen\<close> is text that no computation reads and is left out.
\<close>

record benchmark =
  bm_optimal :: real
  bm_studie :: string
  bm_befund :: string

record analyzer =
  empirische_benchmarks :: "benchmark pydict"

definition lade_empirische_benchmarks :: "benchmark pydict" where
  "lade_empirische_benchmarks =
    [(''perspektiven_balance'',
        \<lparr>bm_optimal = 0.8,
         bm_studie = ''Gomez & Weber (2020) - Balanced Management Performance'',
         bm_befund = ''Unternehmen mit ausgeglichenen Perspektiven zeigen 25% h'' @ oe
                     @ ''here Gesamtperformance''\<rparr>),
     (''ordnungsmomente_koh'' @ ae @ ''renz'',
        \<lparr>bm_optimal = 0.75,
         bm_studie = ''R'' @ ue @ ''egg-St'' @ ue @ ''rm (2019) - Organizational Coherence'',
         bm_befund = ''Koh'' @ ae
                     @ ''rente Ordnungsmomente reduzieren Reibungsverluste um 40%''\<rparr>),
     (''umwelt_sensitivit'' @ ae @ ''t'',
        \<lparr>bm_optimal = 0.7,
         bm_studie = ''Ansoff & Sullivan (2021) - Environmental Scanning'',
         bm_befund = ''Hohe Umweltwahrnehmung korreliert mit 30% besserer Anpassungsf''
                     @ ae @ ''higkeit''\<rparr>)]"

definition StGallerFrameworkAnalyzer :: analyzer where
  \<comment> \<open>\<open>__init__\<close>\<close>
  "StGallerFrameworkAnalyzer = \<lparr>empirische_benchmarks = lade_empirische_benchmarks\<rparr>"

subsection \<open>Benchmark comparison\<close>

record vergleich =
  aktueller_wert :: real
  optimaler_benchmark :: real
  abweichung :: real
  interpretation' :: string \<comment> \<open>the key \<open>interpretation\<close>\<close>
  studie :: string
  empirischer_befund :: string

text \<open>
  \<open>benchmark = self.empirische_benchmarks.get(benchmark_key, {})\<close>: a missing key gives the
  empty dictionary, on which each of the three \<open>get\<close>s returns its default.
\<close>

definition vergleiche_mit_benchmarks ::
  "analyzer \<Rightarrow> real pydict \<Rightarrow> string \<Rightarrow> real \<Rightarrow> vergleich" where
  "vergleiche_mit_benchmarks self scores benchmark_key wert =
    (let benchmark = map_of (empirische_benchmarks self) benchmark_key;
         optimal_wert = (case benchmark of None \<Rightarrow> 0.7 | Some b \<Rightarrow> bm_optimal b)
     in \<lparr>aktueller_wert = wert,
         optimaler_benchmark = optimal_wert,
         abweichung = wert - optimal_wert,
         interpretation' = (if wert > optimal_wert then ue @ ''berdurchschnittlich''
                            else ''unterdurchschnittlich''),
         studie = (case benchmark of None \<Rightarrow> '''' | Some b \<Rightarrow> bm_studie b),
         empirischer_befund = (case benchmark of None \<Rightarrow> '''' | Some b \<Rightarrow> bm_befund b)\<rparr>)"

subsection \<open>Development profile\<close>

text \<open>
  \<open>max(scores.values())\<close> is computed first (and raises on an empty dictionary) although
  \<open>max_score\<close> is not used afterwards.
\<close>

definition bestimme_entwicklungs_profil :: "analyzer \<Rightarrow> real pydict \<Rightarrow> error + string" where
  "bestimme_entwicklungs_profil self scores =
    bind_result (py_max_key (\<lambda>v. v) (dict_values scores)) (\<lambda>max_score.
    bind_result (max_by_get scores) (\<lambda>max_dimension.
      let profile = [(''reflexion'', ''Lernende Organisation''),
                     (''innovation'', ''Innovative Organisation''),
                     (''transformation'', ''Transformative Organisation'')]
      in Inr (dict_get (map_of profile) max_dimension ''Ausgeglichene Organisation'')))"

subsection \<open>The four aggregators\<close>

text \<open>
  The results are dictionaries with fixed keys; they are records whose fields carry the
  key with a prefix for the aggregator (\<open>mp\<close>, \<open>om\<close>, \<open>ep\<close>, \<open>se\<close>), and \<open>ae\<close> for the
  umlaut of \<open>koh\<close>..\<open>renz\<close>.
\<close>

record management_ergebnis =
  mp_scores :: "real pydict"
  mp_balance :: real
  mp_dominante_perspektive :: string
  mp_empirischer_vergleich :: vergleich

record ordnungs_ergebnis =
  om_scores :: "real pydict"
  om_kohaerenz :: real
  om_schwaechstes_ordnungselement :: string
  om_staerkstes_ordnungselement :: string
  om_empirischer_vergleich :: vergleich

record entwicklungs_ergebnis =
  ep_scores :: "real pydict"
  ep_entwicklungs_profil :: string
  ep_anpassungs_faehigkeit :: real

record systemisches_ergebnis =
  se_umwelt_sensitivitaet :: real
  se_anpassungs_faehigkeit :: real
  se_widerstands_faehigkeit :: real
  se_systemische_gesundheit :: real
  se_empirischer_vergleich :: vergleich

definition analysiere_management_perspektiven ::
  "analyzer \<Rightarrow> (string \<rightharpoonup> real) \<Rightarrow> error + management_ergebnis" where
  "analysiere_management_perspektiven self antworten =
    (let scores = [];
         normativ_indikatoren =
           [dict_get antworten ''wertekongruenz'' 0,
            dict_get antworten ''sinnstiftung'' 0,
            dict_get antworten ''identitaetsbeitrag'' 0,
            dict_get antworten ''legitimitaet'' 0];
         scores = dict_setitem scores ''normativ'' (np_mean normativ_indikatoren);
         strategisch_indikatoren =
           [dict_get antworten ''wettbewerbsvorteil'' 0,
            dict_get antworten ''marktrelevanz'' 0,
            dict_get antworten ''ressourcenpassung'' 0,
            dict_get antworten ''zukunftsfaehigkeit'' 0];
         scores = dict_setitem scores ''strategisch'' (np_mean strategisch_indikatoren);
         operativ_indikatoren =
           [dict_get antworten ''prozesseffizienz'' 0,
            dict_get antworten ''ressourcenoptimierung'' 0,
            dict_get antworten ''qualitaetssicherung'' 0,
            dict_get antworten ''skalierbarkeit'' 0];
         scores = dict_setitem scores ''operativ'' (np_mean operativ_indikatoren);
         perspektiven_scores = dict_values scores;
         balance = 1 - (np_std perspektiven_scores / 3.5)
     in bind_result (max_by_get scores) (\<lambda>dominante_perspektive.
          Inr \<lparr>mp_scores = scores,
               mp_balance = balance,
               mp_dominante_perspektive = dominante_perspektive,
               mp_empirischer_vergleich =
                 vergleiche_mit_benchmarks self scores ''perspektiven_balance'' balance\<rparr>))"

definition analysiere_ordnungsmomente ::
  "analyzer \<Rightarrow> (string \<rightharpoonup> real) \<Rightarrow> error + ordnungs_ergebnis" where
  "analysiere_ordnungsmomente self antworten =
    (let scores = [];
         kultur_indikatoren =
           [dict_get antworten ''wertekonsens'' 0,
            dict_get antworten ''verhaltensnormen'' 0,
            dict_get antworten ''gemeinschaftsgefuehl'' 0];
         scores = dict_setitem scores ''kultur'' (np_mean kultur_indikatoren);
         strukturen_indikatoren =
           [dict_get antworten ''rollenklaerung'' 0,
            dict_get antworten ''entscheidungskompetenz'' 0,
            dict_get antworten ''koordinationsmechanismen'' 0];
         scores = dict_setitem scores ''strukturen'' (np_mean strukturen_indikatoren);
         prozesse_indikatoren =
           [dict_get antworten ''prozessstandardisierung'' 0,
            dict_get antworten ''entscheidungsgeschwindigkeit'' 0,
            dict_get antworten ''kontinuierliche_verbesserung'' 0];
         scores = dict_setitem scores ''prozesse'' (np_mean prozesse_indikatoren);
         technologien_indikatoren =
           [dict_get antworten ''systemunterstuetzung'' 0,
            dict_get antworten ''digitalisierungsgrad'' 0,
            dict_get antworten ''datennutzung'' 0];
         scores = dict_setitem scores ''technologien'' (np_mean technologien_indikatoren);
         ordnungs_scores = dict_values scores;
         kohaerenz = 1 - (np_std ordnungs_scores / 3.5)
     in bind_result (min_by_get scores) (\<lambda>schwaechstes.
        bind_result (max_by_get scores) (\<lambda>staerkstes.
          Inr \<lparr>om_scores = scores,
               om_kohaerenz = kohaerenz,
               om_schwaechstes_ordnungselement = schwaechstes,
               om_staerkstes_ordnungselement = staerkstes,
               om_empirischer_vergleich =
                 vergleiche_mit_benchmarks self scores
                   (''ordnungsmomente_koh'' @ ae @ ''renz'') kohaerenz\<rparr>)))"

definition analysiere_entwicklungsperspektiven ::
  "analyzer \<Rightarrow> (string \<rightharpoonup> real) \<Rightarrow> error + entwicklungs_ergebnis" where
  "analysiere_entwicklungsperspektiven self antworten =
    (let scores = [];
         reflexion_indikatoren =
           [dict_get antworten ''erfahrungsauswertung'' 0,
            dict_get antworten ''feedback_kultur'' 0,
            dict_get antworten ''lernbereitschaft'' 0];
         scores = dict_setitem scores ''reflexion'' (np_mean reflexion_indikatoren);
         innovation_indikatoren =
           [dict_get antworten ''kreativitaetsfoerderung'' 0,
            dict_get antworten ''experimentierfreudigkeit'' 0,
            dict_get antworten ''veraenderungsbereitschaft'' 0];
         scores = dict_setitem scores ''innovation'' (np_mean innovation_indikatoren);
         transformation_indikatoren =
           [dict_get antworten ''anpassungsflexibilitaet'' 0,
            dict_get antworten ''umstrukturierungskompetenz'' 0,
            dict_get antworten ''zukunftsgestaltung'' 0];
         scores = dict_setitem scores ''transformation'' (np_mean transformation_indikatoren)
     in bind_result (bestimme_entwicklungs_profil self scores) (\<lambda>entwicklungs_profil.
          Inr \<lparr>ep_scores = scores,
               ep_entwicklungs_profil = entwicklungs_profil,
               ep_anpassungs_faehigkeit = np_mean (dict_values scores)\<rparr>))"

text \<open>
  The systemic aggregator asks for the benchmark \<open>umwelt_sensitivitaet\<close>, spelled with
  \<open>ae\<close>, and passes a fresh one-entry dictionary as \<open>scores\<close>.
\<close>

definition analysiere_systemische_eigenschaften ::
  "analyzer \<Rightarrow> (string \<rightharpoonup> real) \<Rightarrow> systemisches_ergebnis" where
  "analysiere_systemische_eigenschaften self antworten =
    (let
         umwelt_indikatoren =
           [dict_get antworten ''marktbeobachtung'' 0,
            dict_get antworten ''trendfruchterkennung'' 0,
            dict_get antworten ''stakeholder_dialog'' 0];
         umwelt_sensitivitaet = np_mean umwelt_indikatoren;
         anpassung_indikatoren =
           [dict_get antworten ''reaktionsgeschwindigkeit'' 0,
            dict_get antworten ''aenderungsmanagement'' 0,
            dict_get antworten ''ressourcenflexibilitaet'' 0];
         anpassungs_faehigkeit = np_mean anpassung_indikatoren;
         resilienz_indikatoren =
           [dict_get antworten ''krisenresistenz'' 0,
            dict_get antworten ''ausfallsicherheit'' 0,
            dict_get antworten ''erneuerungsfaehigkeit'' 0];
         widerstands_faehigkeit = np_mean resilienz_indikatoren
     in \<lparr>se_umwelt_sensitivitaet = umwelt_sensitivitaet,
         se_anpassungs_faehigkeit = anpassungs_faehigkeit,
         se_widerstands_faehigkeit = widerstands_faehigkeit,
         se_systemische_gesundheit =
           np_mean [umwelt_sensitivitaet, anpassungs_faehigkeit, widerstands_faehigkeit],
         se_empirischer_vergleich =
           vergleiche_mit_benchmarks self [(''umwelt'', umwelt_sensitivitaet)]
             ''umwelt_sensitivitaet'' umwelt_sensitivitaet\<rparr>)"

subsection \<open>The full analysis\<close>

record StGallerAnalyseErgebnis =
  normativ_score :: real
  strategisch_score :: real
  operativ_score :: real
  perspektiven_balance :: real
  kultur_score :: real
  strukturen_score :: real
  prozesse_score :: real
  technologien_score :: real
  ordnungsmomente_kohaerenz :: real
  reflexions_faehigkeit :: real
  innovations_faehigkeit :: real
  transformations_faehigkeit :: real
  umwelt_sensitivitaet :: real
  anpassungs_faehigkeit :: real
  widerstands_faehigkeit :: real
  theoretische_referenzen :: "string list"
  empirische_indikatoren :: "real pydict"

text \<open>
  The four aggregators run first, in this order; then the arguments of the constructor
  are evaluated from first to last, each \<open>[...]\<close> on \<open>scores\<close> raising KeyError for a
  missing key. \<open>empirische_indikatoren\<close> keeps its default, the empty dictionary.
\<close>

definition durchfuehr_komplette_analyse ::
  "analyzer \<Rightarrow> (string \<rightharpoonup> real) \<Rightarrow> error + StGallerAnalyseErgebnis" where
  "durchfuehr_komplette_analyse self antworten =
    bind_result (analysiere_management_perspektiven self antworten) (\<lambda>management_perspektiven.
    bind_result (analysiere_ordnungsmomente self antworten) (\<lambda>ordnungsmomente.
    bind_result (analysiere_entwicklungsperspektiven self antworten) (\<lambda>entwicklungsperspektiven.
    let systemische_eigenschaften = analysiere_systemische_eigenschaften self antworten in
    bind_result (dict_getitem (mp_scores management_perspektiven) ''normativ'') (\<lambda>normativ.
    bind_result (dict_getitem (mp_scores management_perspektiven) ''strategisch'') (\<lambda>strategisch.
    bind_result (dict_getitem (mp_scores management_perspektiven) ''operativ'') (\<lambda>operativ.
    bind_result (dict_getitem (om_scores ordnungsmomente) ''kultur'') (\<lambda>kultur.
    bind_result (dict_getitem (om_scores ordnungsmomente) ''strukturen'') (\<lambda>strukturen.
    bind_result (dict_getitem (om_scores ordnungsmomente) ''prozesse'') (\<lambda>prozesse.
    bind_result (dict_getitem (om_scores ordnungsmomente) ''technologien'') (\<lambda>technologien.
    bind_result (dict_getitem (ep_scores entwicklungsperspektiven) ''reflexion'') (\<lambda>reflexion.
    bind_result (dict_getitem (ep_scores entwicklungsperspektiven) ''innovation'') (\<lambda>innovation.
    bind_result (dict_getitem (ep_scores entwicklungsperspektiven) ''transformation'')
      (\<lambda>transformation.
      Inr \<lparr>normativ_score = normativ,
           strategisch_score = strategisch,
           operativ_score = operativ,
           perspektiven_balance = mp_balance management_perspektiven,
           kultur_score = kultur,
           strukturen_score = strukturen,
           prozesse_score = prozesse,
           technologien_score = technologien,
           ordnungsmomente_kohaerenz = om_kohaerenz ordnungsmomente,
           reflexions_faehigkeit = reflexion,
           innovations_faehigkeit = innovation,
           transformations_faehigkeit = transformation,
           umwelt_sensitivitaet = se_umwelt_sensitivitaet systemische_eigenschaften,
           anpassungs_faehigkeit = se_anpassungs_faehigkeit systemische_eigenschaften,
           widerstands_faehigkeit = se_widerstands_faehigkeit systemische_eigenschaften,
           theoretische_referenzen =
             [''R'' @ ue @ ''egg-St'' @ ue
                @ ''rm, J. & Grand, S. (2019). Das St. Galler Management Modell'',
              ''Gomez, P. & Weber, B. (2020). Strategic Management'',
              ''Mintzberg, H. & Westley, F. (2021). Organizational Learning'',
              ''Luhmann, N. (2018). Social Systems and Management''],
           empirische_indikatoren = []\<rparr>)))))))))))))"

subsection \<open>The indicators\<close>

text \<open>
  \<open>init_session_state\<close> lists every indicator of the four families with its initial
  rating; the keys of this dictionary are the indicators the aggregators read.
\<close>

definition default_antworten :: "real pydict" where
  "default_antworten =
    [(''wertekongruenz'', 4),
     (''sinnstiftung'', 4),
     (''identitaetsbeitrag'', 4),
     (''legitimitaet'', 4),
     (''wettbewerbsvorteil'', 4),
     (''marktrelevanz'', 4),
     (''ressourcenpassung'', 4),
     (''zukunftsfaehigkeit'', 4),
     (''prozesseffizienz'', 4),
     (''ressourcenoptimierung'', 4),
     (''qualitaetssicherung'', 4),
     (''skalierbarkeit'', 4),
     (''wertekonsens'', 4),
     (''verhaltensnormen'', 4),
     (''gemeinschaftsgefuehl'', 4),
     (''rollenklaerung'', 4),
     (''entscheidungskompetenz'', 4),
     (''koordinationsmechanismen'', 4),
     (''prozessstandardisierung'', 4),
     (''entscheidungsgeschwindigkeit'', 4),
     (''kontinuierliche_verbesserung'', 4),
     (''systemunterstuetzung'', 4),
     (''digitalisierungsgrad'', 4),
     (''datennutzung'', 4),
     (''erfahrungsauswertung'', 4),
     (''feedback_kultur'', 4),
     (''lernbereitschaft'', 4),
     (''kreativitaetsfoerderung'', 4),
     (''experimentierfreudigkeit'', 4),
     (''veraenderungsbereitschaft'', 4),
     (''anpassungsflexibilitaet'', 4),
     (''umstrukturierungskompetenz'', 4),
     (''zukunftsgestaltung'', 4),
     (''marktbeobachtung'', 4),
     (''trendfruchterkennung'', 4),
     (''stakeholder_dialog'', 4),
     (''reaktionsgeschwindigkeit'', 4),
     (''aenderungsmanagement'', 4),
     (''ressourcenflexibilitaet'', 4),
     (''krisenresistenz'', 4),
     (''ausfallsicherheit'', 4),
     (''erneuerungsfaehigkeit'', 4)]"

definition indikatoren :: "string list" where
  "indikatoren = map fst default_antworten"

section \<open>Properties\<close>

subsection \<open>The first maximum and the first minimum\<close>

text \<open>
  The loop of \<open>max\<close> ends on the first item whose key is the greatest: the item is in the
  list, no key exceeds its key, and searching the list for its key finds the item itself.
\<close>

lemma foldl_max_first:
  fixes f :: "'a \<Rightarrow> real"
  shows "foldl (\<lambda>best y. if f y > f best then y else best) x xs \<in> set (x # xs)
       \<and> (\<forall>y\<in>set (x # xs). f y \<le> f (foldl (\<lambda>best y. if f y > f best then y else best) x xs))
       \<and> find (\<lambda>e. f e = f (foldl (\<lambda>best y. if f y > f best then y else best) x xs)) (x # xs)
           = Some (foldl (\<lambda>best y. if f y > f best then y else best) x xs)"
proof (induction xs arbitrary: x)
  case Nil
  show ?case by simp
next
  case (Cons y ys)
  let ?step = "\<lambda>best y. if f y > f best then y else best"
  show ?case
  proof (cases "f y > f x")
    case True
    let ?r = "foldl ?step y ys"
    have eq: "foldl ?step x (y # ys) = ?r" using True by simp
    from Cons.IH [of y] have mem: "?r \<in> set (y # ys)"
      and ub: "\<forall>z\<in>set (y # ys). f z \<le> f ?r"
      and fnd: "find (\<lambda>e. f e = f ?r) (y # ys) = Some ?r" by blast+
    from ub have "f y \<le> f ?r" by simp
    with True have lt: "f x < f ?r" by linarith
    have f': "find (\<lambda>e. f e = f ?r) (x # y # ys) = Some ?r"
      using lt fnd by simp
    have m': "?r \<in> set (x # y # ys)" using mem by simp
    have u': "\<forall>z\<in>set (x # y # ys). f z \<le> f ?r" using ub lt by simp
    show ?thesis unfolding eq using m' u' f' by blast
  next
    case False
    let ?r = "foldl ?step x ys"
    have eq: "foldl ?step x (y # ys) = ?r" using False by simp
    from Cons.IH [of x] have mem: "?r \<in> set (x # ys)"
      and ub: "\<forall>z\<in>set (x # ys). f z \<le> f ?r"
      and fnd: "find (\<lambda>e. f e = f ?r) (x # ys) = Some ?r" by blast+
    from ub have xr: "f x \<le> f ?r" by simp
    with False have yr: "f y \<le> f ?r" by linarith
    have f': "find (\<lambda>e. f e = f ?r) (x # y # ys) = Some ?r"
    proof (cases "f x = f ?r")
      case True
      with fnd show ?thesis by simp
    next
      case ne: False
      with xr have "f x < f ?r" by linarith
      with False have "f y \<noteq> f ?r" by linarith
      with ne fnd show ?thesis by simp
    qed
    have m': "?r \<in> set (x # y # ys)" using mem by auto
    have u': "\<forall>z\<in>set (x # y # ys). f z \<le> f ?r" using ub yr by simp
    show ?thesis unfolding eq using m' u' f' by blast
  qed
qed

lemma foldl_min_first:
  fixes f :: "'a \<Rightarrow> real"
  shows "foldl (\<lambda>best y. if f y < f best then y else best) x xs \<in> set (x # xs)
       \<and> (\<forall>y\<in>set (x # xs). f (foldl (\<lambda>best y. if f y < f best then y else best) x xs) \<le> f y)
       \<and> find (\<lambda>e. f e = f (foldl (\<lambda>best y. if f y < f best then y else best) x xs)) (x # xs)
           = Some (foldl (\<lambda>best y. if f y < f best then y else best) x xs)"
  using foldl_max_first [of "\<lambda>e. - f e" x xs] by simp

lemma max_by_get_first:
  assumes "scores \<noteq> []"
  shows "\<exists>k v. max_by_get scores = Inr k \<and> (k, v) \<in> set scores
           \<and> v = Max (set (dict_values scores))
           \<and> find (\<lambda>e. snd e = Max (set (dict_values scores))) scores = Some (k, v)"
proof -
  from assms obtain x xs where sc: "scores = x # xs" by (cases scores) auto
  let ?r = "foldl (\<lambda>best y. if snd y > snd best then y else best) x xs"
  from foldl_max_first [of snd x xs] have mem: "?r \<in> set scores"
    and ub: "\<forall>y\<in>set scores. snd y \<le> snd ?r"
    and fnd: "find (\<lambda>e. snd e = snd ?r) scores = Some ?r"
    unfolding sc by blast+
  have "Max (set (dict_values scores)) = snd ?r"
    unfolding dict_values_def using mem ub by (intro Max_eqI) auto
  moreover have "max_by_get scores = Inr (fst ?r)"
    by (simp add: sc max_by_get_def bind_result_def)
  ultimately show ?thesis using mem fnd
    by (intro exI [of _ "fst ?r"] exI [of _ "snd ?r"]) simp
qed

lemma min_by_get_first:
  assumes "scores \<noteq> []"
  shows "\<exists>k v. min_by_get scores = Inr k \<and> (k, v) \<in> set scores
           \<and> v = Min (set (dict_values scores))
           \<and> find (\<lambda>e. snd e = Min (set (dict_values scores))) scores = Some (k, v)"
proof -
  from assms obtain x xs where sc: "scores = x # xs" by (cases scores) auto
  let ?r = "foldl (\<lambda>best y. if snd y < snd best then y else best) x xs"
  from foldl_min_first [of snd x xs] have mem: "?r \<in> set scores"
    and lb: "\<forall>y\<in>set scores. snd ?r \<le> snd y"
    and fnd: "find (\<lambda>e. snd e = snd ?r) scores = Some ?r"
    unfolding sc by blast+
  have "Min (set (dict_values scores)) = snd ?r"
    unfolding dict_values_def using mem lb by (intro Min_eqI) auto
  moreover have "min_by_get scores = Inr (fst ?r)"
    by (simp add: sc min_by_get_def bind_result_def)
  ultimately show ?thesis using mem fnd
    by (intro exI [of _ "fst ?r"] exI [of _ "snd ?r"]) simp
qed

subsection \<open>Benchmark comparison\<close>

text \<open>
  In the results of the comparison the spec's verdict \<open>above\<close> is the string
  \<open>ue\<close>..\<open>berdurchschnittlich\<close> of the source, and \<open>below\<close> is \<open>unterdurchschnittlich\<close>;
  \<open>source_label\<close> is the key \<open>studie\<close> and \<open>finding\<close> the key \<open>empirischer_befund\<close>.
\<close>

text \<open>
  C3. For a benchmark key that the table of the analyzer does not hold, the comparison
  returns (it has no error branch) the optimal value 0.7, the deviation \<open>wert - 0.7\<close> and
  empty strings for source and finding. For the unregistered key \<open>foo\<close> and the value 0.9
  this is optimal 0.7, the deviation \<open>0.9 - 0.7\<close>, which is 0.2 up to a billionth,
  verdict above, and both strings empty.
\<close>

theorem vergleich_unregistered_key:
  "(map_of (empirische_benchmarks self) benchmark_key = None \<longrightarrow>
      vergleiche_mit_benchmarks self scores benchmark_key wert =
        \<lparr>aktueller_wert = wert,
         optimaler_benchmark = 0.7,
         abweichung = wert - 0.7,
         interpretation' = (if wert > 0.7 then ue @ ''berdurchschnittlich''
                            else ''unterdurchschnittlich''),
         studie = '''',
         empirischer_befund = ''''\<rparr>)
   \<and> aktueller_wert
        (vergleiche_mit_benchmarks StGallerFrameworkAnalyzer scores ''foo'' 0.9) = 0.9
   \<and> optimaler_benchmark
        (vergleiche_mit_benchmarks StGallerFrameworkAnalyzer scores ''foo'' 0.9) = 0.7
   \<and> abweichung
        (vergleiche_mit_benchmarks StGallerFrameworkAnalyzer scores ''foo'' 0.9) = 0.9 - 0.7
   \<and> \<bar>abweichung
        (vergleiche_mit_benchmarks StGallerFrameworkAnalyzer scores ''foo'' 0.9) - 0.2\<bar>
        < 1 / 10 ^ 9
   \<and> interpretation'
        (vergleiche_mit_benchmarks StGallerFrameworkAnalyzer scores ''foo'' 0.9)
        = ue @ ''berdurchschnittlich''
   \<and> studie
        (vergleiche_mit_benchmarks StGallerFrameworkAnalyzer scores ''foo'' 0.9) = ''''
   \<and> empirischer_befund
        (vergleiche_mit_benchmarks StGallerFrameworkAnalyzer scores ''foo'' 0.9) = ''''"
  by (simp add: vergleiche_mit_benchmarks_def Let_def StGallerFrameworkAnalyzer_def
      lade_empirische_benchmarks_def)

theorem vergleich_unregistered_key_witness:
  "map_of (empirische_benchmarks StGallerFrameworkAnalyzer) ''bar'' = None
   \<and> vergleiche_mit_benchmarks StGallerFrameworkAnalyzer [] ''bar'' 0.5 =
        \<lparr>aktueller_wert = 0.5,
         optimaler_benchmark = 0.7,
         abweichung = 0.5 - 0.7,
         interpretation' = ''unterdurchschnittlich'',
         studie = '''',
         empirischer_befund = ''''\<rparr>"
proof -
  have h: "map_of (empirische_benchmarks StGallerFrameworkAnalyzer) ''bar'' = None"
    by (simp add: StGallerFrameworkAnalyzer_def lade_empirische_benchmarks_def)
  from vergleich_unregistered_key [of StGallerFrameworkAnalyzer "''bar''" "[]" "0.5"] h
  have "vergleiche_mit_benchmarks StGallerFrameworkAnalyzer [] ''bar'' 0.5 =
        \<lparr>aktueller_wert = 0.5,
         optimaler_benchmark = 0.7,
         abweichung = 0.5 - 0.7,
         interpretation' = (if (0.5::real) > 0.7 then ue @ ''berdurchschnittlich''
                            else ''unterdurchschnittlich''),
         studie = '''',
         empirischer_befund = ''''\<rparr>" by blast
  with h show ?thesis by simp
qed

text \<open>
  C4. For every value and every key the deviation is the value minus the optimal value
  that the lookup gives, the verdict is above exactly when the value is strictly greater
  than the optimal value, and below otherwise; a value equal to the optimal is below.
\<close>

theorem vergleich_strict_above:
  "aktueller_wert (vergleiche_mit_benchmarks self scores benchmark_key wert) = wert
   \<and> optimaler_benchmark (vergleiche_mit_benchmarks self scores benchmark_key wert) =
       (case map_of (empirische_benchmarks self) benchmark_key of
          None \<Rightarrow> 0.7 | Some b \<Rightarrow> bm_optimal b)
   \<and> abweichung (vergleiche_mit_benchmarks self scores benchmark_key wert) =
       wert - optimaler_benchmark (vergleiche_mit_benchmarks self scores benchmark_key wert)
   \<and> (interpretation' (vergleiche_mit_benchmarks self scores benchmark_key wert)
         = ue @ ''berdurchschnittlich''
       \<longleftrightarrow> wert > optimaler_benchmark (vergleiche_mit_benchmarks self scores benchmark_key wert))
   \<and> (interpretation' (vergleiche_mit_benchmarks self scores benchmark_key wert)
         = ''unterdurchschnittlich''
       \<longleftrightarrow> \<not> wert > optimaler_benchmark (vergleiche_mit_benchmarks self scores benchmark_key wert))
   \<and> (wert = optimaler_benchmark (vergleiche_mit_benchmarks self scores benchmark_key wert)
       \<longrightarrow> interpretation' (vergleiche_mit_benchmarks self scores benchmark_key wert)
             = ''unterdurchschnittlich'')"
  by (simp add: vergleiche_mit_benchmarks_def Let_def)

theorem vergleich_strict_above_witness:
  "(0.8::real) = optimaler_benchmark
      (vergleiche_mit_benchmarks StGallerFrameworkAnalyzer [] ''perspektiven_balance'' 0.8)
   \<and> interpretation'
      (vergleiche_mit_benchmarks StGallerFrameworkAnalyzer [] ''perspektiven_balance'' 0.8)
       = ''unterdurchschnittlich''"
proof -
  have h: "(0.8::real) = optimaler_benchmark
      (vergleiche_mit_benchmarks StGallerFrameworkAnalyzer [] ''perspektiven_balance'' 0.8)"
    by (simp add: vergleiche_mit_benchmarks_def Let_def StGallerFrameworkAnalyzer_def
        lade_empirische_benchmarks_def)
  from vergleich_strict_above
         [of StGallerFrameworkAnalyzer "[]" "''perspektiven_balance''" "0.8"] h
  show ?thesis by blast
qed

text \<open>
  C10. The comparison does not read its argument \<open>scores\<close>: two calls that differ in it
  only return the same record.
\<close>

theorem vergleich_ignores_scores:
  "vergleiche_mit_benchmarks self scores benchmark_key wert =
   vergleiche_mit_benchmarks self scores' benchmark_key wert"
  by (simp add: vergleiche_mit_benchmarks_def)

subsection \<open>The benchmark of the systemic properties\<close>

text \<open>
  C2. The systemic aggregator compares the environment score under the key
  \<open>umwelt_sensitivitaet\<close>. The table registers the benchmark under
  \<open>umwelt_sensitivit\<close>..\<open>t\<close> with the umlaut, so the lookup misses for every ratings
  mapping: the comparison has the default optimal 0.7 and an empty source and finding,
  not the registered strings.
\<close>

theorem systemische_benchmark_key_mismatch:
  "se_empirischer_vergleich (analysiere_systemische_eigenschaften StGallerFrameworkAnalyzer antworten) =
     vergleiche_mit_benchmarks StGallerFrameworkAnalyzer
       [(''umwelt'', se_umwelt_sensitivitaet
           (analysiere_systemische_eigenschaften StGallerFrameworkAnalyzer antworten))]
       ''umwelt_sensitivitaet''
       (se_umwelt_sensitivitaet
           (analysiere_systemische_eigenschaften StGallerFrameworkAnalyzer antworten))
   \<and> map_of (empirische_benchmarks StGallerFrameworkAnalyzer) ''umwelt_sensitivitaet'' = None
   \<and> studie (se_empirischer_vergleich
        (analysiere_systemische_eigenschaften StGallerFrameworkAnalyzer antworten)) = ''''
   \<and> empirischer_befund (se_empirischer_vergleich
        (analysiere_systemische_eigenschaften StGallerFrameworkAnalyzer antworten)) = ''''
   \<and> map_of (empirische_benchmarks StGallerFrameworkAnalyzer)
        (''umwelt_sensitivit'' @ ae @ ''t'') =
      Some \<lparr>bm_optimal = 0.7,
         bm_studie = ''Ansoff & Sullivan (2021) - Environmental Scanning'',
         bm_befund = ''Hohe Umweltwahrnehmung korreliert mit 30% besserer Anpassungsf''
                     @ ae @ ''higkeit''\<rparr>"
  by (simp add: analysiere_systemische_eigenschaften_def Let_def vergleiche_mit_benchmarks_def
      StGallerFrameworkAnalyzer_def lade_empirische_benchmarks_def)

subsection \<open>What the aggregators return\<close>

text \<open>
  Each of the three aggregators that build a \<open>scores\<close> dictionary fills it with its
  fixed keys in a fixed order and then selects from it; none of them raises.
\<close>

lemma management_shape:
  "\<exists>n s o'. analysiere_management_perspektiven self antworten =
     bind_result (max_by_get [(''normativ'', n), (''strategisch'', s), (''operativ'', o')])
       (\<lambda>d. Inr \<lparr>mp_scores = [(''normativ'', n), (''strategisch'', s), (''operativ'', o')],
                 mp_balance = 1 - (np_std [n, s, o'] / 3.5),
                 mp_dominante_perspektive = d,
                 mp_empirischer_vergleich =
                   vergleiche_mit_benchmarks self
                     [(''normativ'', n), (''strategisch'', s), (''operativ'', o')]
                     ''perspektiven_balance'' (1 - (np_std [n, s, o'] / 3.5))\<rparr>)"
  by (intro exI) (simp add: analysiere_management_perspektiven_def Let_def dict_values_def)

lemma ordnungs_shape:
  "\<exists>k s p t. analysiere_ordnungsmomente self antworten =
     bind_result (min_by_get [(''kultur'', k), (''strukturen'', s), (''prozesse'', p),
                              (''technologien'', t)]) (\<lambda>lo.
     bind_result (max_by_get [(''kultur'', k), (''strukturen'', s), (''prozesse'', p),
                              (''technologien'', t)]) (\<lambda>hi.
       Inr \<lparr>om_scores = [(''kultur'', k), (''strukturen'', s), (''prozesse'', p),
                         (''technologien'', t)],
            om_kohaerenz = 1 - (np_std [k, s, p, t] / 3.5),
            om_schwaechstes_ordnungselement = lo,
            om_staerkstes_ordnungselement = hi,
            om_empirischer_vergleich =
              vergleiche_mit_benchmarks self
                [(''kultur'', k), (''strukturen'', s), (''prozesse'', p), (''technologien'', t)]
                (''ordnungsmomente_koh'' @ ae @ ''renz'') (1 - (np_std [k, s, p, t] / 3.5))\<rparr>))"
  by (intro exI) (simp add: analysiere_ordnungsmomente_def Let_def dict_values_def)

lemma entwicklungs_shape:
  "\<exists>x y z. analysiere_entwicklungsperspektiven self antworten =
     bind_result (bestimme_entwicklungs_profil self
        [(''reflexion'', x), (''innovation'', y), (''transformation'', z)])
       (\<lambda>p. Inr \<lparr>ep_scores = [(''reflexion'', x), (''innovation'', y), (''transformation'', z)],
                 ep_entwicklungs_profil = p,
                 ep_anpassungs_faehigkeit = np_mean [x, y, z]\<rparr>)"
  by (intro exI) (simp add: analysiere_entwicklungsperspektiven_def Let_def dict_values_def)

text \<open>
  On the three development scores the classification is a chain of two comparisons: a
  later score wins only when it is strictly greater.
\<close>

lemma profil_three:
  "bestimme_entwicklungs_profil self
     [(''reflexion'', x), (''innovation'', y), (''transformation'', z)] =
   Inr (if y \<le> x \<and> z \<le> x then ''Lernende Organisation''
        else if z \<le> y then ''Innovative Organisation''
        else ''Transformative Organisation'')"
  by (simp add: bestimme_entwicklungs_profil_def bind_result_def max_by_get_def
      dict_values_def dict_get_def Let_def)

lemma management_returns:
  "\<exists>mp n s o'. analysiere_management_perspektiven self antworten = Inr mp
     \<and> mp_scores mp = [(''normativ'', n), (''strategisch'', s), (''operativ'', o')]"
  by (simp add: analysiere_management_perspektiven_def Let_def max_by_get_def bind_result_def)

lemma ordnungs_returns:
  "\<exists>om k s p t. analysiere_ordnungsmomente self antworten = Inr om
     \<and> om_scores om = [(''kultur'', k), (''strukturen'', s), (''prozesse'', p),
                        (''technologien'', t)]"
  by (simp add: analysiere_ordnungsmomente_def Let_def max_by_get_def min_by_get_def
      bind_result_def)

lemma entwicklungs_returns:
  "\<exists>ep x y z. analysiere_entwicklungsperspektiven self antworten = Inr ep
     \<and> ep_scores ep = [(''reflexion'', x), (''innovation'', y), (''transformation'', z)]"
  by (simp add: analysiere_entwicklungsperspektiven_def Let_def profil_three bind_result_def)

subsection \<open>Dominant perspective, weakest and strongest element\<close>

text \<open>
  C7. For every ratings mapping the management aggregator returns, and its dominant
  perspective is one of \<open>normativ\<close>, \<open>strategisch\<close>, \<open>operativ\<close>; the order aggregator
  returns, and its weakest and its strongest element are each one of \<open>kultur\<close>,
  \<open>strukturen\<close>, \<open>prozesse\<close>, \<open>technologien\<close>. The key selected is that of the first
  entry, in the insertion order of \<open>scores\<close>, whose score is the maximum (for the weakest
  element, the minimum) of all scores.
\<close>

theorem dominant_and_extreme_elements:
  "(\<exists>r. analysiere_management_perspektiven self antworten = Inr r
      \<and> map fst (mp_scores r) = [''normativ'', ''strategisch'', ''operativ'']
      \<and> mp_dominante_perspektive r \<in> {''normativ'', ''strategisch'', ''operativ''}
      \<and> map_option fst
            (find (\<lambda>e. snd e = Max (set (dict_values (mp_scores r)))) (mp_scores r))
          = Some (mp_dominante_perspektive r))
   \<and> (\<exists>r. analysiere_ordnungsmomente self antworten = Inr r
      \<and> map fst (om_scores r) = [''kultur'', ''strukturen'', ''prozesse'', ''technologien'']
      \<and> om_schwaechstes_ordnungselement r
          \<in> {''kultur'', ''strukturen'', ''prozesse'', ''technologien''}
      \<and> om_staerkstes_ordnungselement r
          \<in> {''kultur'', ''strukturen'', ''prozesse'', ''technologien''}
      \<and> map_option fst
            (find (\<lambda>e. snd e = Min (set (dict_values (om_scores r)))) (om_scores r))
          = Some (om_schwaechstes_ordnungselement r)
      \<and> map_option fst
            (find (\<lambda>e. snd e = Max (set (dict_values (om_scores r)))) (om_scores r))
          = Some (om_staerkstes_ordnungselement r))"
proof (rule conjI)
  from management_shape [of self antworten] obtain n s o' where
    sh: "analysiere_management_perspektiven self antworten =
     bind_result (max_by_get [(''normativ'', n), (''strategisch'', s), (''operativ'', o')])
       (\<lambda>d. Inr \<lparr>mp_scores = [(''normativ'', n), (''strategisch'', s), (''operativ'', o')],
                 mp_balance = 1 - (np_std [n, s, o'] / 3.5),
                 mp_dominante_perspektive = d,
                 mp_empirischer_vergleich =
                   vergleiche_mit_benchmarks self
                     [(''normativ'', n), (''strategisch'', s), (''operativ'', o')]
                     ''perspektiven_balance'' (1 - (np_std [n, s, o'] / 3.5))\<rparr>)"
    by blast
  let ?S = "[(''normativ'', n), (''strategisch'', s), (''operativ'', o')]"
  have "?S \<noteq> []" by simp
  from max_by_get_first [OF this] obtain k v where
    mx: "max_by_get ?S = Inr k" and mem: "(k, v) \<in> set ?S"
    and fnd: "find (\<lambda>e. snd e = Max (set (dict_values ?S))) ?S = Some (k, v)" by blast
  from mem have "k \<in> {''normativ'', ''strategisch'', ''operativ''}" by auto
  with sh mx fnd
  show "\<exists>r. analysiere_management_perspektiven self antworten = Inr r
      \<and> map fst (mp_scores r) = [''normativ'', ''strategisch'', ''operativ'']
      \<and> mp_dominante_perspektive r \<in> {''normativ'', ''strategisch'', ''operativ''}
      \<and> map_option fst
            (find (\<lambda>e. snd e = Max (set (dict_values (mp_scores r)))) (mp_scores r))
          = Some (mp_dominante_perspektive r)"
    by (simp add: bind_result_def)
next
  from ordnungs_shape [of self antworten] obtain k s p t where
    sh: "analysiere_ordnungsmomente self antworten =
     bind_result (min_by_get [(''kultur'', k), (''strukturen'', s), (''prozesse'', p),
                              (''technologien'', t)]) (\<lambda>lo.
     bind_result (max_by_get [(''kultur'', k), (''strukturen'', s), (''prozesse'', p),
                              (''technologien'', t)]) (\<lambda>hi.
       Inr \<lparr>om_scores = [(''kultur'', k), (''strukturen'', s), (''prozesse'', p),
                         (''technologien'', t)],
            om_kohaerenz = 1 - (np_std [k, s, p, t] / 3.5),
            om_schwaechstes_ordnungselement = lo,
            om_staerkstes_ordnungselement = hi,
            om_empirischer_vergleich =
              vergleiche_mit_benchmarks self
                [(''kultur'', k), (''strukturen'', s), (''prozesse'', p), (''technologien'', t)]
                (''ordnungsmomente_koh'' @ ae @ ''renz'') (1 - (np_std [k, s, p, t] / 3.5))\<rparr>))"
    by blast
  let ?S = "[(''kultur'', k), (''strukturen'', s), (''prozesse'', p), (''technologien'', t)]"
  have ne: "?S \<noteq> []" by simp
  from min_by_get_first [OF ne] obtain lo lv where
    mn: "min_by_get ?S = Inr lo" and lmem: "(lo, lv) \<in> set ?S"
    and lfnd: "find (\<lambda>e. snd e = Min (set (dict_values ?S))) ?S = Some (lo, lv)" by blast
  from max_by_get_first [OF ne] obtain hi hv where
    mx: "max_by_get ?S = Inr hi" and hmem: "(hi, hv) \<in> set ?S"
    and hfnd: "find (\<lambda>e. snd e = Max (set (dict_values ?S))) ?S = Some (hi, hv)" by blast
  from lmem have lk: "lo \<in> {''kultur'', ''strukturen'', ''prozesse'', ''technologien''}"
    by auto
  from hmem have hk: "hi \<in> {''kultur'', ''strukturen'', ''prozesse'', ''technologien''}"
    by auto
  from sh mn mx lfnd hfnd lk hk
  show "\<exists>r. analysiere_ordnungsmomente self antworten = Inr r
      \<and> map fst (om_scores r) = [''kultur'', ''strukturen'', ''prozesse'', ''technologien'']
      \<and> om_schwaechstes_ordnungselement r
          \<in> {''kultur'', ''strukturen'', ''prozesse'', ''technologien''}
      \<and> om_staerkstes_ordnungselement r
          \<in> {''kultur'', ''strukturen'', ''prozesse'', ''technologien''}
      \<and> map_option fst
            (find (\<lambda>e. snd e = Min (set (dict_values (om_scores r)))) (om_scores r))
          = Some (om_schwaechstes_ordnungselement r)
      \<and> map_option fst
            (find (\<lambda>e. snd e = Max (set (dict_values (om_scores r)))) (om_scores r))
          = Some (om_staerkstes_ordnungselement r)"
    by (simp add: bind_result_def)
qed

subsection \<open>Development profile\<close>

text \<open>
  The spec's labels Learning, Innovative, Transformative and Balanced Organization are
  the strings \<open>Lernende Organisation\<close>, \<open>Innovative Organisation\<close>,
  \<open>Transformative Organisation\<close> and \<open>Ausgeglichene Organisation\<close> of the source.
\<close>

text \<open>
  C8. For every ratings mapping the development aggregator returns, with the scores
  \<open>x\<close> for reflexion, \<open>y\<close> for innovation and \<open>z\<close> for transformation, and the profile is
  the learning organisation when \<open>x\<close> is maximal, the innovative organisation when \<open>y\<close>
  is maximal and \<open>x\<close> is not, and the transformative organisation when \<open>z\<close> alone is
  maximal: among equal maximal scores the first key wins.
\<close>

theorem entwicklungs_profil_by_maximum:
  "\<exists>r x y z. analysiere_entwicklungsperspektiven self antworten = Inr r
     \<and> ep_scores r = [(''reflexion'', x), (''innovation'', y), (''transformation'', z)]
     \<and> (y \<le> x \<and> z \<le> x \<longrightarrow> ep_entwicklungs_profil r = ''Lernende Organisation'')
     \<and> (x < y \<and> z \<le> y \<longrightarrow> ep_entwicklungs_profil r = ''Innovative Organisation'')
     \<and> (x < z \<and> y < z \<longrightarrow> ep_entwicklungs_profil r = ''Transformative Organisation'')"
proof -
  from entwicklungs_shape [of self antworten] obtain x y z where
    sh: "analysiere_entwicklungsperspektiven self antworten =
     bind_result (bestimme_entwicklungs_profil self
        [(''reflexion'', x), (''innovation'', y), (''transformation'', z)])
       (\<lambda>p. Inr \<lparr>ep_scores = [(''reflexion'', x), (''innovation'', y), (''transformation'', z)],
                 ep_entwicklungs_profil = p,
                 ep_anpassungs_faehigkeit = np_mean [x, y, z]\<rparr>)"
    by blast
  have "analysiere_entwicklungsperspektiven self antworten =
      Inr \<lparr>ep_scores = [(''reflexion'', x), (''innovation'', y), (''transformation'', z)],
           ep_entwicklungs_profil =
             (if y \<le> x \<and> z \<le> x then ''Lernende Organisation''
              else if z \<le> y then ''Innovative Organisation''
              else ''Transformative Organisation''),
           ep_anpassungs_faehigkeit = np_mean [x, y, z]\<rparr>"
    unfolding sh profil_three by (simp add: bind_result_def)
  then show ?thesis by simp
qed

theorem entwicklungs_profil_by_maximum_witness:
  "map_sum id ep_entwicklungs_profil
     (analysiere_entwicklungsperspektiven StGallerFrameworkAnalyzer Map.empty)
     = Inr ''Lernende Organisation''
   \<and> map_sum id ep_entwicklungs_profil
     (analysiere_entwicklungsperspektiven StGallerFrameworkAnalyzer
        [''experimentierfreudigkeit'' \<mapsto> 3])
     = Inr ''Innovative Organisation''
   \<and> map_sum id ep_entwicklungs_profil
     (analysiere_entwicklungsperspektiven StGallerFrameworkAnalyzer
        [''zukunftsgestaltung'' \<mapsto> 3])
     = Inr ''Transformative Organisation''"
proof (intro conjI)
  let ?A = StGallerFrameworkAnalyzer
  have e: "map_sum id ep_scores (analysiere_entwicklungsperspektiven ?A Map.empty) =
      Inr [(''reflexion'', 0), (''innovation'', 0), (''transformation'', 0)]"
    by (simp add: analysiere_entwicklungsperspektiven_def Let_def profil_three bind_result_def
        dict_get_def np_mean_def)
  from entwicklungs_profil_by_maximum [of ?A Map.empty] obtain r x y z where
    r: "analysiere_entwicklungsperspektiven ?A Map.empty = Inr r"
    and s: "ep_scores r = [(''reflexion'', x), (''innovation'', y), (''transformation'', z)]"
    and h: "y \<le> x \<and> z \<le> x \<longrightarrow> ep_entwicklungs_profil r = ''Lernende Organisation''"
    by blast
  from e r s have "y \<le> x \<and> z \<le> x" by simp
  with h r show "map_sum id ep_entwicklungs_profil
     (analysiere_entwicklungsperspektiven ?A Map.empty) = Inr ''Lernende Organisation''"
    by simp
next
  let ?A = StGallerFrameworkAnalyzer
  let ?a = "[''experimentierfreudigkeit'' \<mapsto> (3::real)]"
  have e: "map_sum id ep_scores (analysiere_entwicklungsperspektiven ?A ?a) =
      Inr [(''reflexion'', 0), (''innovation'', 1), (''transformation'', 0)]"
    by (simp add: analysiere_entwicklungsperspektiven_def Let_def profil_three bind_result_def
        dict_get_def np_mean_def)
  from entwicklungs_profil_by_maximum [of ?A ?a] obtain r x y z where
    r: "analysiere_entwicklungsperspektiven ?A ?a = Inr r"
    and s: "ep_scores r = [(''reflexion'', x), (''innovation'', y), (''transformation'', z)]"
    and h: "x < y \<and> z \<le> y \<longrightarrow> ep_entwicklungs_profil r = ''Innovative Organisation''"
    by blast
  from e r s have "x < y \<and> z \<le> y" by simp
  with h r show "map_sum id ep_entwicklungs_profil
     (analysiere_entwicklungsperspektiven ?A ?a) = Inr ''Innovative Organisation''"
    by simp
next
  let ?A = StGallerFrameworkAnalyzer
  let ?a = "[''zukunftsgestaltung'' \<mapsto> (3::real)]"
  have e: "map_sum id ep_scores (analysiere_entwicklungsperspektiven ?A ?a) =
      Inr [(''reflexion'', 0), (''innovation'', 0), (''transformation'', 1)]"
    by (simp add: analysiere_entwicklungsperspektiven_def Let_def profil_three bind_result_def
        dict_get_def np_mean_def)
  from entwicklungs_profil_by_maximum [of ?A ?a] obtain r x y z where
    r: "analysiere_entwicklungsperspektiven ?A ?a = Inr r"
    and s: "ep_scores r = [(''reflexion'', x), (''innovation'', y), (''transformation'', z)]"
    and h: "x < z \<and> y < z \<longrightarrow> ep_entwicklungs_profil r = ''Transformative Organisation''"
    by blast
  from e r s have "x < z \<and> y < z" by simp
  with h r show "map_sum id ep_entwicklungs_profil
     (analysiere_entwicklungsperspektiven ?A ?a) = Inr ''Transformative Organisation''"
    by simp
qed

text \<open>
  C9. For every ratings mapping the key selected from the development scores is one of
  the three development keys, so the profile is one of the three labels and the fallback
  \<open>Ausgeglichene Organisation\<close> is never returned by the aggregator.
\<close>

theorem fallback_profil_unreachable:
  "\<exists>r. analysiere_entwicklungsperspektiven self antworten = Inr r
     \<and> max_by_get (ep_scores r) \<in> {Inr ''reflexion'', Inr ''innovation'', Inr ''transformation''}
     \<and> ep_entwicklungs_profil r \<in> {''Lernende Organisation'', ''Innovative Organisation'',
                                     ''Transformative Organisation''}
     \<and> ep_entwicklungs_profil r \<noteq> ''Ausgeglichene Organisation''"
proof -
  from entwicklungs_shape [of self antworten] obtain x y z where
    sh: "analysiere_entwicklungsperspektiven self antworten =
     bind_result (bestimme_entwicklungs_profil self
        [(''reflexion'', x), (''innovation'', y), (''transformation'', z)])
       (\<lambda>p. Inr \<lparr>ep_scores = [(''reflexion'', x), (''innovation'', y), (''transformation'', z)],
                 ep_entwicklungs_profil = p,
                 ep_anpassungs_faehigkeit = np_mean [x, y, z]\<rparr>)"
    by blast
  show ?thesis
    unfolding sh profil_three
    by (simp add: bind_result_def max_by_get_def)
qed

subsection \<open>The full analysis\<close>

text \<open>
  C6. For every ratings mapping the four aggregators and the full analysis return, and
  every score and composite index of the consolidated result equals the field of the
  standalone aggregator called on the same ratings: the three management scores and the
  balance, the four order scores and the coherence, the three development scores, and the
  three systemic scores.
\<close>

theorem komplette_analyse_copies_aggregators:
  "\<exists>mp om ep erg.
      analysiere_management_perspektiven self antworten = Inr mp
    \<and> analysiere_ordnungsmomente self antworten = Inr om
    \<and> analysiere_entwicklungsperspektiven self antworten = Inr ep
    \<and> durchfuehr_komplette_analyse self antworten = Inr erg
    \<and> dict_getitem (mp_scores mp) ''normativ'' = Inr (normativ_score erg)
    \<and> dict_getitem (mp_scores mp) ''strategisch'' = Inr (strategisch_score erg)
    \<and> dict_getitem (mp_scores mp) ''operativ'' = Inr (operativ_score erg)
    \<and> mp_balance mp = perspektiven_balance erg
    \<and> dict_getitem (om_scores om) ''kultur'' = Inr (kultur_score erg)
    \<and> dict_getitem (om_scores om) ''strukturen'' = Inr (strukturen_score erg)
    \<and> dict_getitem (om_scores om) ''prozesse'' = Inr (prozesse_score erg)
    \<and> dict_getitem (om_scores om) ''technologien'' = Inr (technologien_score erg)
    \<and> om_kohaerenz om = ordnungsmomente_kohaerenz erg
    \<and> dict_getitem (ep_scores ep) ''reflexion'' = Inr (reflexions_faehigkeit erg)
    \<and> dict_getitem (ep_scores ep) ''innovation'' = Inr (innovations_faehigkeit erg)
    \<and> dict_getitem (ep_scores ep) ''transformation'' = Inr (transformations_faehigkeit erg)
    \<and> se_umwelt_sensitivitaet (analysiere_systemische_eigenschaften self antworten)
        = umwelt_sensitivitaet erg
    \<and> se_anpassungs_faehigkeit (analysiere_systemische_eigenschaften self antworten)
        = anpassungs_faehigkeit erg
    \<and> se_widerstands_faehigkeit (analysiere_systemische_eigenschaften self antworten)
        = widerstands_faehigkeit erg"
proof -
  from management_returns [of self antworten] obtain mp n s o' where
    mp: "analysiere_management_perspektiven self antworten = Inr mp"
    and mps: "mp_scores mp = [(''normativ'', n), (''strategisch'', s), (''operativ'', o')]"
    by blast
  from ordnungs_returns [of self antworten] obtain om k st p t where
    om: "analysiere_ordnungsmomente self antworten = Inr om"
    and oms: "om_scores om = [(''kultur'', k), (''strukturen'', st), (''prozesse'', p),
                             (''technologien'', t)]"
    by blast
  from entwicklungs_returns [of self antworten] obtain ep x y z where
    ep: "analysiere_entwicklungsperspektiven self antworten = Inr ep"
    and eps: "ep_scores ep = [(''reflexion'', x), (''innovation'', y), (''transformation'', z)]"
    by blast
  show ?thesis
    by (simp add: durchfuehr_komplette_analyse_def mp om ep mps oms eps bind_result_def
        dict_getitem_def Let_def)
qed

subsection \<open>Scenarios and boundary cases\<close>

lemma map_of_const:
  "\<forall>e\<in>set xs. snd e = c \<Longrightarrow> k \<in> fst ` set xs \<Longrightarrow> map_of xs k = Some c"
  by (induction xs) auto

lemma np_mean_const3: "np_mean [v, v, v] = v"
  by (simp add: np_mean_def)

lemma np_mean_const4: "np_mean [v, v, v, v] = v"
  by (simp add: np_mean_def)

lemma np_std_const3: "np_std [v, v, v] = 0"
  by (simp add: np_std_def np_mean_def)

lemma np_std_const4: "np_std [v, v, v, v] = 0"
  by (simp add: np_std_def np_mean_def)

lemma np_std_7_1_1: "np_std [7, 1, 1] = sqrt 8"
  by (simp add: np_std_def np_mean_def)

lemma sqrt_8_bounds: "2.828 < sqrt 8 \<and> sqrt 8 < 2.829"
proof
  show "2.828 < sqrt 8" by (rule real_less_rsqrt) (simp add: power2_eq_square)
  show "sqrt 8 < 2.829" by (rule real_less_lsqrt) (simp_all add: power2_eq_square)
qed

text \<open>
  C5. With the four normative indicators at 7 and the four strategic and the four
  operational indicators at 1, the management aggregator returns the scores 7, 1 and 1,
  the balance \<open>1 - np_std [7, 1, 1] / 3.5\<close>, which is \<open>1 - sqrt 8 / 3.5\<close> and within
  0.001 of 0.192, and the dominant perspective \<open>normativ\<close>.
\<close>

theorem szenario_normativ_dominant:
  "\<exists>r. analysiere_management_perspektiven StGallerFrameworkAnalyzer
          (map_of [(''wertekongruenz'', 7), (''sinnstiftung'', 7),
                   (''identitaetsbeitrag'', 7), (''legitimitaet'', 7),
                   (''wettbewerbsvorteil'', 1), (''marktrelevanz'', 1),
                   (''ressourcenpassung'', 1), (''zukunftsfaehigkeit'', 1),
                   (''prozesseffizienz'', 1), (''ressourcenoptimierung'', 1),
                   (''qualitaetssicherung'', 1), (''skalierbarkeit'', 1)]) = Inr r
     \<and> mp_scores r = [(''normativ'', 7), (''strategisch'', 1), (''operativ'', 1)]
     \<and> mp_balance r = 1 - np_std [7, 1, 1] / 3.5
     \<and> mp_balance r = 1 - sqrt 8 / 3.5
     \<and> \<bar>mp_balance r - 0.192\<bar> < 0.001
     \<and> mp_dominante_perspektive r = ''normativ''"
proof -
  let ?a = "map_of [(''wertekongruenz'', 7::real), (''sinnstiftung'', 7),
                   (''identitaetsbeitrag'', 7), (''legitimitaet'', 7),
                   (''wettbewerbsvorteil'', 1), (''marktrelevanz'', 1),
                   (''ressourcenpassung'', 1), (''zukunftsfaehigkeit'', 1),
                   (''prozesseffizienz'', 1), (''ressourcenoptimierung'', 1),
                   (''qualitaetssicherung'', 1), (''skalierbarkeit'', 1)]"
  let ?S = "[(''normativ'', 7::real), (''strategisch'', 1), (''operativ'', 1)]"
  have res: "analysiere_management_perspektiven StGallerFrameworkAnalyzer ?a =
      Inr \<lparr>mp_scores = ?S,
           mp_balance = 1 - np_std [7, 1, 1] / 3.5,
           mp_dominante_perspektive = ''normativ'',
           mp_empirischer_vergleich =
             vergleiche_mit_benchmarks StGallerFrameworkAnalyzer ?S
               ''perspektiven_balance'' (1 - np_std [7, 1, 1] / 3.5)\<rparr>"
    by (simp add: analysiere_management_perspektiven_def Let_def dict_get_def np_mean_def
        dict_values_def max_by_get_def bind_result_def)
  have "\<bar>1 - sqrt 8 / 3.5 - 0.192\<bar> < (0.001::real)"
    using sqrt_8_bounds by (simp add: abs_less_iff field_simps)
  then show ?thesis unfolding res by (simp add: np_std_7_1_1)
qed

text \<open>
  C1, as the spec states it, fails: with no spread the standard deviation is 0, and the
  index is \<open>1 - 0 / 3.5 = 1\<close>, not \<open>1 / 3.5\<close>. On the empty ratings mapping the three
  management scores are 0 and the balance is 1.
\<close>

theorem uniform_ratings_counterexample:
  "map_sum id mp_scores
     (analysiere_management_perspektiven StGallerFrameworkAnalyzer Map.empty)
     = Inr [(''normativ'', 0), (''strategisch'', 0), (''operativ'', 0)]
   \<and> map_sum id mp_balance
     (analysiere_management_perspektiven StGallerFrameworkAnalyzer Map.empty) = Inr 1
   \<and> map_sum id mp_balance
     (analysiere_management_perspektiven StGallerFrameworkAnalyzer Map.empty) \<noteq> Inr (1 / 3.5)"
  by (simp add: analysiere_management_perspektiven_def Let_def dict_get_def np_mean_def
      np_std_def dict_values_def max_by_get_def bind_result_def)

text \<open>
  C1, amended. When every indicator has the same integer rating \<open>v\<close> from 1 to 7 (the
  values of the rating scale), every dimension score of the four aggregators is \<open>v\<close>; on
  the empty ratings mapping every dimension score is 0. In both cases the balance and
  the coherence are 1. On these ratings every sum, quotient and square root of the
  computation is a binary64 number, so nothing is rounded.
\<close>

theorem uniform_ratings:
  assumes "((\<forall>k\<in>set indikatoren. antworten k = Some v) \<and> v \<in> {1, 2, 3, 4, 5, 6, 7})
           \<or> (antworten = Map.empty \<and> v = 0)"
  shows "\<exists>mp om ep.
      analysiere_management_perspektiven self antworten = Inr mp
    \<and> mp_scores mp = [(''normativ'', v), (''strategisch'', v), (''operativ'', v)]
    \<and> mp_balance mp = 1
    \<and> analysiere_ordnungsmomente self antworten = Inr om
    \<and> om_scores om = [(''kultur'', v), (''strukturen'', v), (''prozesse'', v),
                       (''technologien'', v)]
    \<and> om_kohaerenz om = 1
    \<and> analysiere_entwicklungsperspektiven self antworten = Inr ep
    \<and> ep_scores ep = [(''reflexion'', v), (''innovation'', v), (''transformation'', v)]
    \<and> se_umwelt_sensitivitaet (analysiere_systemische_eigenschaften self antworten) = v
    \<and> se_anpassungs_faehigkeit (analysiere_systemische_eigenschaften self antworten) = v
    \<and> se_widerstands_faehigkeit (analysiere_systemische_eigenschaften self antworten) = v"
proof -
  from assms have "\<forall>k\<in>set indikatoren. dict_get antworten k 0 = v"
    by (auto simp add: dict_get_def)
  then have "list_all (\<lambda>k. dict_get antworten k 0 = v) indikatoren"
    by (simp add: list_all_iff)
  note g = this [simplified indikatoren_def default_antworten_def list.map fst_conv
      list.pred_inject simp_thms]
  have mp: "\<exists>mp. analysiere_management_perspektiven self antworten = Inr mp
    \<and> mp_scores mp = [(''normativ'', v), (''strategisch'', v), (''operativ'', v)]
    \<and> mp_balance mp = 1"
    by (simp add: analysiere_management_perspektiven_def Let_def g np_mean_const4
        np_std_const3 dict_values_def max_by_get_def bind_result_def)
  have om: "\<exists>om. analysiere_ordnungsmomente self antworten = Inr om
    \<and> om_scores om = [(''kultur'', v), (''strukturen'', v), (''prozesse'', v),
                       (''technologien'', v)]
    \<and> om_kohaerenz om = 1"
    by (simp add: analysiere_ordnungsmomente_def Let_def g np_mean_const3
        np_std_const4 dict_values_def max_by_get_def min_by_get_def bind_result_def)
  have ep: "\<exists>ep. analysiere_entwicklungsperspektiven self antworten = Inr ep
    \<and> ep_scores ep = [(''reflexion'', v), (''innovation'', v), (''transformation'', v)]"
    by (simp add: analysiere_entwicklungsperspektiven_def Let_def g np_mean_const3
        profil_three bind_result_def)
  have se: "se_umwelt_sensitivitaet (analysiere_systemische_eigenschaften self antworten) = v
    \<and> se_anpassungs_faehigkeit (analysiere_systemische_eigenschaften self antworten) = v
    \<and> se_widerstands_faehigkeit (analysiere_systemische_eigenschaften self antworten) = v"
    by (simp add: analysiere_systemische_eigenschaften_def Let_def g np_mean_const3)
  from mp om ep se show ?thesis by blast
qed

theorem uniform_ratings_witness:
  "map_sum id mp_scores
     (analysiere_management_perspektiven StGallerFrameworkAnalyzer (map_of default_antworten))
     = Inr [(''normativ'', 4), (''strategisch'', 4), (''operativ'', 4)]
   \<and> map_sum id mp_balance
     (analysiere_management_perspektiven StGallerFrameworkAnalyzer (map_of default_antworten))
     = Inr 1
   \<and> map_sum id om_kohaerenz
     (analysiere_ordnungsmomente StGallerFrameworkAnalyzer (map_of default_antworten))
     = Inr 1
   \<and> map_sum id om_kohaerenz
     (analysiere_ordnungsmomente StGallerFrameworkAnalyzer Map.empty) = Inr 1"
proof -
  let ?A = StGallerFrameworkAnalyzer
  have h: "((\<forall>k\<in>set indikatoren. map_of default_antworten k = Some 4)
             \<and> (4::real) \<in> {1, 2, 3, 4, 5, 6, 7})
           \<or> (map_of default_antworten = Map.empty \<and> (4::real) = 0)"
  proof -
    have "\<forall>e\<in>set default_antworten. snd e = 4"
      by (simp add: default_antworten_def)
    then have "\<forall>k\<in>set indikatoren. map_of default_antworten k = Some 4"
      unfolding indikatoren_def by (simp add: map_of_const)
    then show ?thesis by simp
  qed
  have h0: "((\<forall>k\<in>set indikatoren. (Map.empty :: string \<rightharpoonup> real) k = Some 0)
             \<and> (0::real) \<in> {1, 2, 3, 4, 5, 6, 7})
           \<or> ((Map.empty :: string \<rightharpoonup> real) = Map.empty \<and> (0::real) = 0)"
    by simp
  from uniform_ratings [OF h, of ?A] uniform_ratings [OF h0, of ?A]
  show ?thesis by auto
qed

end
